theory Spec2Isabelle
  imports Main
begin

section \<open>The render scheduler of \<^verbatim>\<open>src/vector/Stage.js\<close>\<close>

text \<open>
  A shallow embedding of the scheduling core of \<^verbatim>\<open>acgraph.vector.Stage\<close>: the
  suspend counter, the rendering flag, the quota of DOM changes and the two flushes
  (\<^verbatim>\<open>render\<close>, and \<^verbatim>\<open>renderAsync\<close> with its timer callback).

  Conventions.
  \<^item> A private name of the source ends in an underscore (\<^verbatim>\<open>suspended_\<close>), which
    is not a name here; the underscore is written as a prime (\<open>suspended'\<close>).
  \<^item> Numbers are JavaScript numbers holding integers and are modelled as \<open>int\<close>;
    \<^verbatim>\<open>Math.floor(x / 3)\<close> on an integer \<open>x\<close> is \<open>x div 3\<close>.
  \<^item> A method mutates \<^verbatim>\<open>this\<close>; here it takes the stage and returns the new
    stage, paired with the returned value when the source returns one other than
    \<^verbatim>\<open>this\<close>, and with a completion when the source can throw.
  \<^item> The root layer, the clips, the credits and the renderer live in other files. They
    are a parameter of the model: an abstract scene \<open>'w\<close> and a record of functions
    saying how the collaborators read and change it.
\<close>

subsection \<open>Enumerations\<close>

text \<open>\<^verbatim>\<open>acgraph.vector.Stage.DomChangeType\<close>, lines 266 to 287.\<close>

datatype DomChangeType =
  ELEMENT_CREATE | ELEMENT_ADD | ELEMENT_REMOVE | APPLY_FILL | APPLY_STROKE

text \<open>\<^verbatim>\<open>acgraph.vector.Stage.EventType\<close>, lines 294 to 306.\<close>

datatype EventType = RENDER_START | RENDER_FINISH | STAGE_RESIZE | STAGE_RENDERED

text \<open>The two error codes that the flushes throw (\<^verbatim>\<open>acgraph.error.Code\<close>).\<close>

datatype ErrorCode = CONTAINER_SHOULD_BE_DEFINED | DIRTY_AFTER_SYNC_RENDER

text \<open>How a call that can throw ends.\<close>

datatype Completion = Normal | Throw ErrorCode

text \<open>
  The field \<^verbatim>\<open>acquireDomChanges\<close> holds one of the two allocator methods
  (lines 967, 1024 and 161); the datatype says which.
\<close>

datatype Allocator = Sync | Async

text \<open>A DOM element is known by an identifier.\<close>

type_synonym Element = nat

type_synonym Clip = nat

subsection \<open>Observation logs\<close>

text \<open>
  Three fields of the model are not fields of the source: they record what the stage
  does to its surroundings, so that theorems can speak about it.
  \<^item> \<open>events\<close>: the events passed to \<^verbatim>\<open>dispatchEvent\<close>, in order.
  \<^item> \<open>backendCalls\<close>: the calls made to the collaborators, in order.
  \<^item> \<open>budgetLog\<close>: one entry for each write to the quota state (the counter
    \<^verbatim>\<open>currentDomChangesCount\<close> or the field \<^verbatim>\<open>acquireDomChanges\<close>),
    holding the write, the allocator installed after it and the counter after it.
\<close>

datatype BackendCall =
    ClipRender Clip
  | LayerRender
  | CreditsRender
  | AppendChild "Element option"
  | SetStyleDisplayBlock
  | ClasslistAdd
  | StartResizeMonitor
  | ListenOnceImageLoader

datatype BudgetWrite =
    CounterReset
  | AllocatorInstalled
  | ChangesGranted int
  | ChangesReleased int

subsection \<open>The stage\<close>

record 'w Stage =
  suspended' :: int
  container' :: "Element option"
  asyncMode' :: bool
  isRendering' :: bool
  currentDomChangesCount :: int
  maxDomChanges :: int
  acquireDomChangesField :: Allocator
  clipsToRender' :: "Clip list"
  domElementParent :: "Element option"
  renderedResizeMonitor' :: bool
  imageLoadingListener' :: bool
  resizeListener :: bool
  timeouts :: nat
  scene :: 'w
  events :: "EventType list"
  backendCalls :: "BackendCall list"
  budgetLog :: "(BudgetWrite \<times> Allocator \<times> int) list"

text \<open>
  \<open>domElementParent\<close> is \<^verbatim>\<open>goog.dom.getParentElement(this.domElement_)\<close>;
  \<open>resizeListener\<close> is \<^verbatim>\<open>goog.events.hasListener(this, STAGE_RESIZE, ...)\<close>;
  \<open>timeouts\<close> counts the pending \<^verbatim>\<open>setTimeout(this.renderAsync_, 0)\<close> callbacks;
  \<open>scene\<close> is the state of the collaborators.
\<close>

definition logBudget :: "BudgetWrite \<Rightarrow> 'w Stage \<Rightarrow> 'w Stage" where
  "logBudget w s =
     s\<lparr>budgetLog := budgetLog s @ [(w, acquireDomChangesField s, currentDomChangesCount s)]\<rparr>"

subsection \<open>The quota of DOM changes\<close>

text \<open>Lines 934 to 937.\<close>

definition acquireDomChangesSync' :: "int \<Rightarrow> 'w Stage \<Rightarrow> int \<times> 'w Stage" where
  "acquireDomChangesSync' wantedCount s =
     (wantedCount,
      logBudget (ChangesGranted wantedCount)
        (s\<lparr>currentDomChangesCount := currentDomChangesCount s + wantedCount\<rparr>))"

text \<open>Lines 949 to 954.\<close>

definition acquireDomChangesAsync' :: "int \<Rightarrow> 'w Stage \<Rightarrow> int \<times> 'w Stage" where
  "acquireDomChangesAsync' wantedCount s =
     (let allowed = min (maxDomChanges s - currentDomChangesCount s) wantedCount
      in (allowed,
          logBudget (ChangesGranted allowed)
            (s\<lparr>currentDomChangesCount := currentDomChangesCount s + allowed\<rparr>)))"

text \<open>A call \<^verbatim>\<open>this.acquireDomChanges(n)\<close> runs the method the field holds.\<close>

definition acquireDomChanges :: "int \<Rightarrow> 'w Stage \<Rightarrow> int \<times> 'w Stage" where
  "acquireDomChanges wantedCount s =
     (case acquireDomChangesField s of
        Sync \<Rightarrow> acquireDomChangesSync' wantedCount s
      | Async \<Rightarrow> acquireDomChangesAsync' wantedCount s)"

text \<open>Lines 976 to 984.\<close>

definition acquireDomChange :: "DomChangeType \<Rightarrow> 'w Stage \<Rightarrow> bool \<times> 'w Stage" where
  "acquireDomChange changeType s =
     (if changeType = ELEMENT_CREATE \<or> changeType = ELEMENT_ADD \<or> changeType = ELEMENT_REMOVE
      then (let (granted, s1) = acquireDomChanges 1 s in (0 < granted, s1))
      else (True, s))"

text \<open>Lines 994 to 998.\<close>

definition blockChangesForAdding :: "'w Stage \<Rightarrow> int \<times> 'w Stage" where
  "blockChangesForAdding s =
     (let wanted = max (maxDomChanges s - currentDomChangesCount s) 0 div 3
      in acquireDomChanges wanted s)"

text \<open>Lines 1006 to 1008.\<close>

definition releaseDomChanges :: "int \<Rightarrow> int \<Rightarrow> 'w Stage \<Rightarrow> 'w Stage" where
  "releaseDomChanges allowed made s =
     logBudget (ChangesReleased (allowed - made))
       (s\<lparr>currentDomChangesCount := currentDomChangesCount s - (allowed - made)\<rparr>)"

subsection \<open>The collaborators\<close>

text \<open>
  While a layer, a clip or the credits render, they call back into the stage for quota.
  A call of a collaborator's \<^verbatim>\<open>render()\<close> is modelled by what it asks of the stage,
  in order, and by the scene it leaves. Both may depend on the whole stage at the time of
  the call; since the allocators are deterministic, this covers a collaborator that
  decides its next request from the grants it got so far.

  The four quota methods are the only calls back into the stage that the model gives a
  collaborator. A nested \<^verbatim>\<open>render()\<close> or \<^verbatim>\<open>renderAsync()\<close> would change
  nothing, since the rendering flag is set during a flush; other calls made from inside
  a flush, and whatever the listeners of an event do, are outside the model.
\<close>

datatype Request =
    ReqAcquireDomChanges int
  | ReqAcquireDomChange DomChangeType
  | ReqBlockChangesForAdding
  | ReqReleaseDomChanges int int

fun request :: "Request \<Rightarrow> 'w Stage \<Rightarrow> 'w Stage" where
  "request (ReqAcquireDomChanges wantedCount) s = snd (acquireDomChanges wantedCount s)"
| "request (ReqAcquireDomChange changeType) s = snd (acquireDomChange changeType s)"
| "request ReqBlockChangesForAdding s = snd (blockChangesForAdding s)"
| "request (ReqReleaseDomChanges allowed made) s = releaseDomChanges allowed made s"

type_synonym 'w Rendering = "'w Stage \<Rightarrow> Request list \<times> 'w"

text \<open>
  \<open>credits\<close> is \<^verbatim>\<open>this.credits\<close>, which \<^verbatim>\<open>Stage.js\<close> tests (line 1086) and
  never defines: \<open>None\<close> unless another file adds the method.
  \<open>isImageLoading\<close> is \<^verbatim>\<open>imageLoader && isImageLoading\<close> of the renderer.
\<close>

record 'w Collaborators =
  layer_isDirty :: "'w \<Rightarrow> bool"
  layer_render :: "'w Rendering"
  clip_isDirty :: "Clip \<Rightarrow> 'w \<Rightarrow> bool"
  clip_render :: "Clip \<Rightarrow> 'w Rendering"
  credits :: "'w Rendering option"
  isImageLoading :: "'w \<Rightarrow> bool"

definition callRender :: "BackendCall \<Rightarrow> 'w Rendering \<Rightarrow> 'w Stage \<Rightarrow> 'w Stage" where
  "callRender c f s =
     (let (reqs, w) = f s
      in (fold request reqs (s\<lparr>backendCalls := backendCalls s @ [c]\<rparr>))\<lparr>scene := w\<rparr>)"

subsection \<open>Events, flags and the suspend counter\<close>

text \<open>Lines 2577 to 2586; the listeners are outside the model.\<close>

definition dispatchEvent :: "EventType \<Rightarrow> 'w Stage \<Rightarrow> 'w Stage" where
  "dispatchEvent e s = s\<lparr>events := events s @ [e]\<rparr>"

text \<open>Lines 740 to 750.\<close>

definition dispatchRenderEvent :: "EventType \<Rightarrow> 'w Stage \<Rightarrow> 'w Stage" where
  "dispatchRenderEvent type s =
     dispatchEvent type
       (case type of
          RENDER_START \<Rightarrow> s\<lparr>isRendering' := True\<rparr>
        | RENDER_FINISH \<Rightarrow> s\<lparr>isRendering' := False\<rparr>
        | _ \<Rightarrow> s)"

text \<open>Lines 584 to 586, the getter.\<close>

definition container :: "'w Stage \<Rightarrow> Element option" where
  "container s = container' s"

text \<open>Lines 722 to 724 and 731 to 733.\<close>

definition isSuspended :: "'w Stage \<Rightarrow> bool" where
  "isSuspended s = (suspended' s \<noteq> 0)"

definition isRendering :: "'w Stage \<Rightarrow> bool" where
  "isRendering s = isRendering' s"

text \<open>Lines 1127 to 1129.\<close>

definition isDirty :: "'w Collaborators \<Rightarrow> 'w Stage \<Rightarrow> bool" where
  "isDirty R s = layer_isDirty R (scene s)"

text \<open>Lines 678 to 681.\<close>

definition suspend :: "'w Stage \<Rightarrow> 'w Stage" where
  "suspend s = s\<lparr>suspended' := suspended' s + 1\<rparr>"

text \<open>Lines 198 to 201.\<close>

definition stageRenderedDispatcher' :: "'w Stage \<Rightarrow> 'w Stage" where
  "stageRenderedDispatcher' s =
     (if \<not> isRendering' s then dispatchEvent STAGE_RENDERED s else s)"

text \<open>\<^verbatim>\<open>setTimeout(this.renderAsync_, 0)\<close>: one more pending callback.\<close>

definition setTimeoutRenderAsync' :: "'w Stage \<Rightarrow> 'w Stage" where
  "setTimeoutRenderAsync' s = s\<lparr>timeouts := Suc (timeouts s)\<rparr>"

subsection \<open>The flushes\<close>

text \<open>Lines 1074 to 1081: the loop over the pending clips.\<close>

fun renderClips :: "'w Collaborators \<Rightarrow> Clip list \<Rightarrow> 'w Stage \<Rightarrow> 'w Stage" where
  "renderClips R [] s = s"
| "renderClips R (clip # clips) s =
     renderClips R clips
       (if clip_isDirty R clip (scene s)
        then callRender (ClipRender clip) (clip_render R clip) s
        else s)"

text \<open>Lines 1073 to 1089.\<close>

definition renderInternal :: "'w Collaborators \<Rightarrow> 'w Stage \<Rightarrow> 'w Stage" where
  "renderInternal R s =
     (let s1 = (if clipsToRender' s \<noteq> []
                then (renderClips R (clipsToRender' s) s)\<lparr>clipsToRender' := []\<rparr>
                else s);
          s2 = (if layer_isDirty R (scene s1)
                then callRender LayerRender (layer_render R) s1
                else s1)
      in case credits R of
           Some creditsRender \<Rightarrow> callRender CreditsRender creditsRender s2
         | None \<Rightarrow> s2)"

text \<open>The two writes that open a flush: lines 1022 and 1024, and lines 159 and 161.\<close>

definition resetDomChangesCount :: "'w Stage \<Rightarrow> 'w Stage" where
  "resetDomChangesCount s = logBudget CounterReset (s\<lparr>currentDomChangesCount := 0\<rparr>)"

definition installAllocator :: "Allocator \<Rightarrow> 'w Stage \<Rightarrow> 'w Stage" where
  "installAllocator a s = logBudget AllocatorInstalled (s\<lparr>acquireDomChangesField := a\<rparr>)"

text \<open>Lines 1022 to 1026 of \<^verbatim>\<open>render\<close>.\<close>

definition renderBegin :: "'w Stage \<Rightarrow> 'w Stage" where
  "renderBegin s =
     dispatchRenderEvent RENDER_START (installAllocator Sync (resetDomChangesCount s))"

text \<open>Lines 1034 to 1040 of \<^verbatim>\<open>render\<close>.\<close>

definition renderAppend :: "'w Stage \<Rightarrow> 'w Stage" where
  "renderAppend s =
     (if domElementParent s = None \<or> container' s \<noteq> domElementParent s
      then s\<lparr>domElementParent := container' s,
             backendCalls := backendCalls s @
               [AppendChild (container' s), SetStyleDisplayBlock, ClasslistAdd]\<rparr>
      else s)"

text \<open>Lines 1055 to 1064 of \<^verbatim>\<open>render\<close>, and the same text at lines 179 to 188.\<close>

definition settleImages :: "'w Collaborators \<Rightarrow> 'w Stage \<Rightarrow> 'w Stage" where
  "settleImages R s =
     (if isImageLoading R (scene s)
      then (if \<not> imageLoadingListener' s
            then s\<lparr>imageLoadingListener' := True,
                   backendCalls := backendCalls s @ [ListenOnceImageLoader]\<rparr>
            else s)
      else stageRenderedDispatcher' s)"

text \<open>Lines 1046 to 1064 of \<^verbatim>\<open>render\<close>.\<close>

definition renderEnd :: "'w Collaborators \<Rightarrow> 'w Stage \<Rightarrow> 'w Stage" where
  "renderEnd R s =
     (let s1 = (if \<not> renderedResizeMonitor' s \<and> resizeListener s
                then s\<lparr>backendCalls := backendCalls s @ [StartResizeMonitor],
                       renderedResizeMonitor' := True\<rparr>
                else s)
      in settleImages R (dispatchRenderEvent RENDER_FINISH s1))"

text \<open>Lines 1020 to 1066.\<close>

definition render :: "'w Collaborators \<Rightarrow> 'w Stage \<Rightarrow> Completion \<times> 'w Stage" where
  "render R s =
     (if isRendering' s then (Normal, s)
      else let s1 = renderBegin s
           in if container' s1 = None then (Throw CONTAINER_SHOULD_BE_DEFINED, s1)
              else let s2 = renderAppend (renderInternal R s1)
                   in if isDirty R s2 then (Throw DIRTY_AFTER_SYNC_RENDER, s2)
                      else (Normal, renderEnd R s2))"

text \<open>Lines 1100 to 1111.\<close>

definition renderAsync :: "'w Stage \<Rightarrow> Completion \<times> 'w Stage" where
  "renderAsync s =
     (if \<not> isRendering' s
      then (if container s = None then (Throw CONTAINER_SHOULD_BE_DEFINED, s)
            else (Normal, setTimeoutRenderAsync' (dispatchRenderEvent RENDER_START s)))
      else (Normal, s))"

text \<open>Lines 159 and 161 of the timer callback.\<close>

definition renderAsyncBegin :: "'w Stage \<Rightarrow> 'w Stage" where
  "renderAsyncBegin s = installAllocator Async (resetDomChangesCount s)"

text \<open>Lines 165 to 169 of the timer callback.\<close>

definition renderAsyncAppend :: "'w Stage \<Rightarrow> 'w Stage" where
  "renderAsyncAppend s =
     (if domElementParent s = None \<or> container s \<noteq> domElementParent s
      then s\<lparr>domElementParent := container s,
             backendCalls := backendCalls s @ [AppendChild (container s)]\<rparr>
      else s)"

text \<open>Lines 157 to 190: the timer callback, one tick of the incremental rendering.\<close>

definition renderAsync' :: "'w Collaborators \<Rightarrow> 'w Stage \<Rightarrow> 'w Stage" where
  "renderAsync' R s =
     (let s1 = renderAsyncAppend (renderInternal R (renderAsyncBegin s))
      in if isDirty R s1 then setTimeoutRenderAsync' s1
         else let s2 = (if resizeListener s1
                        then s1\<lparr>backendCalls := backendCalls s1 @ [StartResizeMonitor]\<rparr>
                        else s1)
              in settleImages R (dispatchRenderEvent RENDER_FINISH s2))"

text \<open>The host runs a pending callback.\<close>

definition runTimeout :: "'w Collaborators \<Rightarrow> 'w Stage \<Rightarrow> 'w Stage" where
  "runTimeout R s =
     (case timeouts s of
        0 \<Rightarrow> s
      | Suc n \<Rightarrow> renderAsync' R (s\<lparr>timeouts := n\<rparr>))"

text \<open>Lines 690 to 699; an omitted \<^verbatim>\<open>opt_force\<close> is \<open>False\<close>.\<close>

definition resume :: "bool \<Rightarrow> 'w Collaborators \<Rightarrow> 'w Stage \<Rightarrow> Completion \<times> 'w Stage" where
  "resume opt_force R s =
     (let s1 = s\<lparr>suspended' := (if opt_force then 0 else max (suspended' s - 1) 0)\<rparr>
      in if suspended' s1 = 0 \<and> container s1 \<noteq> None
         then (if asyncMode' s1 then renderAsync s1 else render R s1)
         else (Normal, s1))"

text \<open>Lines 709 to 715, the setter.\<close>

definition asyncMode :: "bool \<Rightarrow> 'w Stage \<Rightarrow> 'w Stage" where
  "asyncMode opt_value s = s\<lparr>asyncMode' := opt_value\<rparr>"

text \<open>Lines 2541 to 2547 and 2554 to 2556.\<close>

definition addClipForRender :: "'w Collaborators \<Rightarrow> Clip \<Rightarrow> 'w Stage \<Rightarrow> 'w Stage" where
  "addClipForRender R clip s =
     (if \<not> isSuspended s then callRender (ClipRender clip) (clip_render R clip) s
      else s\<lparr>clipsToRender' := clipsToRender' s @ [clip]\<rparr>)"

definition removeClipFromRender :: "Clip \<Rightarrow> 'w Stage \<Rightarrow> 'w Stage" where
  "removeClipFromRender clip s = s\<lparr>clipsToRender' := remove1 clip (clipsToRender' s)\<rparr>"

text \<open>
  The fields as the constructor and the prototype set them (lines 70, 77, 119, 149, 422,
  431, 668 and 967), for a stage made without a container, before the constructor's last
  statement; and the stage the constructor returns, after its \<^verbatim>\<open>this.resume()\<close>
  (line 240).
\<close>

definition initialFields :: "'w \<Rightarrow> 'w Stage" where
  "initialFields w =
     \<lparr>suspended' = 1, container' = None, asyncMode' = False, isRendering' = False,
      currentDomChangesCount = 0, maxDomChanges = 500, acquireDomChangesField = Sync,
      clipsToRender' = [], domElementParent = None, renderedResizeMonitor' = False,
      imageLoadingListener' = False, resizeListener = False, timeouts = 0, scene = w,
      events = [], backendCalls = [], budgetLog = []\<rparr>"

definition newStage :: "'w Collaborators \<Rightarrow> 'w \<Rightarrow> 'w Stage" where
  "newStage R w = snd (resume False R (initialFields w))"

text \<open>A sequence of calls made by the application, one after the other.\<close>

datatype Call = CallSuspend | CallResume bool | CallRender | CallRenderAsync

fun perform :: "'w Collaborators \<Rightarrow> Call \<Rightarrow> 'w Stage \<Rightarrow> Completion \<times> 'w Stage" where
  "perform R CallSuspend s = (Normal, suspend s)"
| "perform R (CallResume opt_force) s = resume opt_force R s"
| "perform R CallRender s = render R s"
| "perform R CallRenderAsync s = renderAsync s"

fun performAll :: "'w Collaborators \<Rightarrow> Call list \<Rightarrow> 'w Stage \<Rightarrow> 'w Stage" where
  "performAll R [] s = s"
| "performAll R (c # cs) s = performAll R cs (snd (perform R c s))"

subsection \<open>Reading the quota log\<close>

text \<open>
  The changes an entry of the log grants and the unused changes it gives back, and
  their sums over a stretch of the log.
\<close>

fun grantOf :: "BudgetWrite \<Rightarrow> int" where
  "grantOf (ChangesGranted granted) = granted"
| "grantOf (ChangesReleased unused) = 0"
| "grantOf CounterReset = 0"
| "grantOf AllocatorInstalled = 0"

fun givenBackOf :: "BudgetWrite \<Rightarrow> int" where
  "givenBackOf (ChangesReleased unused) = unused"
| "givenBackOf (ChangesGranted granted) = 0"
| "givenBackOf CounterReset = 0"
| "givenBackOf AllocatorInstalled = 0"

definition grantedIn :: "(BudgetWrite \<times> Allocator \<times> int) list \<Rightarrow> int" where
  "grantedIn l = sum_list (map (\<lambda>e. grantOf (fst e)) l)"

definition givenBackIn :: "(BudgetWrite \<times> Allocator \<times> int) list \<Rightarrow> int" where
  "givenBackIn l = sum_list (map (\<lambda>e. givenBackOf (fst e)) l)"



text \<open>
  \<^verbatim>\<open>releaseDomChanges\<close> checks nothing. A request keeps to the quota when it asks for
  a number of changes that is not negative, or gives back a number of unused changes that
  is not negative and not more than the counter holds. A list of requests keeps to the
  quota when each does so on the stage the earlier ones left.
\<close>

fun requestOk :: "Request \<Rightarrow> 'w Stage \<Rightarrow> bool" where
  "requestOk (ReqAcquireDomChanges wantedCount) s = (0 \<le> wantedCount)"
| "requestOk (ReqAcquireDomChange changeType) s = True"
| "requestOk ReqBlockChangesForAdding s = True"
| "requestOk (ReqReleaseDomChanges allowed made) s =
     (0 \<le> allowed - made \<and> allowed - made \<le> currentDomChangesCount s)"






subsection \<open>An example scene\<close>

text \<open>
  A scene that is the number of elements the root layer has still to create. Rendering
  the layer asks for one creation for each missing element and creates as many as the
  allocator allows; rendering a clip reserves two changes, makes one and releases the
  other. There are no credits and no image is loading.
\<close>

definition exampleCollaborators :: "nat Collaborators" where
  "exampleCollaborators =
     \<lparr>layer_isDirty = (\<lambda>w. 0 < w),
      layer_render = (\<lambda>s.
        (replicate (scene s) (ReqAcquireDomChange ELEMENT_CREATE),
         scene s - (case acquireDomChangesField s of
                      Sync \<Rightarrow> scene s
                    | Async \<Rightarrow> min (scene s)
                        (nat (maxDomChanges s - currentDomChangesCount s))))),
      clip_isDirty = (\<lambda>clip w. True),
      clip_render = (\<lambda>clip s. ([ReqAcquireDomChanges 2, ReqReleaseDomChanges 2 1], scene s)),
      credits = None,
      isImageLoading = (\<lambda>w. False)\<rparr>"

text \<open>
  A stage made without a container over a scene of \<open>n\<close> missing elements, then
  suspended and given the container \<open>0\<close>.
\<close>

definition exampleStage :: "nat \<Rightarrow> nat Stage" where
  "exampleStage n = (suspend (newStage exampleCollaborators n))\<lparr>container' := Some 0\<rparr>"



section \<open>Auxiliary facts\<close>

lemmas quota_defs = acquireDomChanges_def acquireDomChangesSync'_def acquireDomChangesAsync'_def
  acquireDomChange_def blockChangesForAdding_def releaseDomChanges_def logBudget_def

lemma request_frame [simp]:
  "suspended' (request r s) = suspended' s"
  "container' (request r s) = container' s"
  "asyncMode' (request r s) = asyncMode' s"
  "isRendering' (request r s) = isRendering' s"
  "maxDomChanges (request r s) = maxDomChanges s"
  "acquireDomChangesField (request r s) = acquireDomChangesField s"
  "clipsToRender' (request r s) = clipsToRender' s"
  "domElementParent (request r s) = domElementParent s"
  "renderedResizeMonitor' (request r s) = renderedResizeMonitor' s"
  "imageLoadingListener' (request r s) = imageLoadingListener' s"
  "resizeListener (request r s) = resizeListener s"
  "timeouts (request r s) = timeouts s"
  "scene (request r s) = scene s"
  "events (request r s) = events s"
  "backendCalls (request r s) = backendCalls s"
  by (cases r; simp add: quota_defs Let_def split: Allocator.splits prod.splits)+

lemma fold_request_frame [simp]:
  "suspended' (fold request rs s) = suspended' s"
  "container' (fold request rs s) = container' s"
  "asyncMode' (fold request rs s) = asyncMode' s"
  "isRendering' (fold request rs s) = isRendering' s"
  "maxDomChanges (fold request rs s) = maxDomChanges s"
  "acquireDomChangesField (fold request rs s) = acquireDomChangesField s"
  "clipsToRender' (fold request rs s) = clipsToRender' s"
  "domElementParent (fold request rs s) = domElementParent s"
  "renderedResizeMonitor' (fold request rs s) = renderedResizeMonitor' s"
  "imageLoadingListener' (fold request rs s) = imageLoadingListener' s"
  "resizeListener (fold request rs s) = resizeListener s"
  "timeouts (fold request rs s) = timeouts s"
  "scene (fold request rs s) = scene s"
  "events (fold request rs s) = events s"
  "backendCalls (fold request rs s) = backendCalls s"
  by (induction rs arbitrary: s; simp)+

lemma callRender_frame [simp]:
  "suspended' (callRender c f s) = suspended' s"
  "container' (callRender c f s) = container' s"
  "asyncMode' (callRender c f s) = asyncMode' s"
  "isRendering' (callRender c f s) = isRendering' s"
  "maxDomChanges (callRender c f s) = maxDomChanges s"
  "acquireDomChangesField (callRender c f s) = acquireDomChangesField s"
  "clipsToRender' (callRender c f s) = clipsToRender' s"
  "domElementParent (callRender c f s) = domElementParent s"
  "renderedResizeMonitor' (callRender c f s) = renderedResizeMonitor' s"
  "imageLoadingListener' (callRender c f s) = imageLoadingListener' s"
  "resizeListener (callRender c f s) = resizeListener s"
  "timeouts (callRender c f s) = timeouts s"
  "events (callRender c f s) = events s"
  "backendCalls (callRender c f s) = backendCalls s @ [c]"
  "scene (callRender c f s) = snd (f s)"
  by (simp_all add: callRender_def split: prod.splits)

lemma renderClips_frame [simp]:
  "suspended' (renderClips R cs s) = suspended' s"
  "container' (renderClips R cs s) = container' s"
  "asyncMode' (renderClips R cs s) = asyncMode' s"
  "isRendering' (renderClips R cs s) = isRendering' s"
  "maxDomChanges (renderClips R cs s) = maxDomChanges s"
  "acquireDomChangesField (renderClips R cs s) = acquireDomChangesField s"
  "clipsToRender' (renderClips R cs s) = clipsToRender' s"
  "domElementParent (renderClips R cs s) = domElementParent s"
  "renderedResizeMonitor' (renderClips R cs s) = renderedResizeMonitor' s"
  "imageLoadingListener' (renderClips R cs s) = imageLoadingListener' s"
  "resizeListener (renderClips R cs s) = resizeListener s"
  "timeouts (renderClips R cs s) = timeouts s"
  "events (renderClips R cs s) = events s"
  by (induction cs arbitrary: s; simp)+

lemma renderInternal_frame [simp]:
  "suspended' (renderInternal R s) = suspended' s"
  "container' (renderInternal R s) = container' s"
  "asyncMode' (renderInternal R s) = asyncMode' s"
  "isRendering' (renderInternal R s) = isRendering' s"
  "maxDomChanges (renderInternal R s) = maxDomChanges s"
  "acquireDomChangesField (renderInternal R s) = acquireDomChangesField s"
  "clipsToRender' (renderInternal R s) = []"
  "domElementParent (renderInternal R s) = domElementParent s"
  "renderedResizeMonitor' (renderInternal R s) = renderedResizeMonitor' s"
  "imageLoadingListener' (renderInternal R s) = imageLoadingListener' s"
  "resizeListener (renderInternal R s) = resizeListener s"
  "timeouts (renderInternal R s) = timeouts s"
  "events (renderInternal R s) = events s"
  by (simp_all add: renderInternal_def Let_def split: option.splits)

lemmas flush_defs = render_def renderAsync_def renderBegin_def renderAppend_def renderEnd_def
  settleImages_def stageRenderedDispatcher'_def dispatchRenderEvent_def dispatchEvent_def
  resetDomChangesCount_def installAllocator_def logBudget_def setTimeoutRenderAsync'_def
  container_def isRendering_def isDirty_def

lemma renderEnd_scene [simp]: "scene (renderEnd R s) = scene s"
  by (simp add: flush_defs Let_def)

lemma renderAppend_scene [simp]: "scene (renderAppend s) = scene s"
  by (simp add: flush_defs)

lemma grantedIn_simps [simp]:
  "grantedIn [] = 0"
  "grantedIn (l @ m) = grantedIn l + grantedIn m"
  "grantedIn [(w, a, c)] = grantOf w"
  "givenBackIn [] = 0"
  "givenBackIn (l @ m) = givenBackIn l + givenBackIn m"
  "givenBackIn [(w, a, c)] = givenBackOf w"
  by (simp_all add: grantedIn_def givenBackIn_def)











lemma requestOk_backendCalls [simp]:
  "requestOk r (s\<lparr>backendCalls := x\<rparr>) = requestOk r s"
  by (cases r) simp_all








lemma render_suspended [simp]: "suspended' (snd (render R s)) = suspended' s"
  by (simp add: render_def Let_def renderBegin_def renderAppend_def renderEnd_def
      settleImages_def stageRenderedDispatcher'_def dispatchRenderEvent_def dispatchEvent_def
      resetDomChangesCount_def installAllocator_def logBudget_def)

lemma renderAsync_suspended [simp]: "suspended' (snd (renderAsync s)) = suspended' s"
  by (simp add: renderAsync_def dispatchRenderEvent_def dispatchEvent_def
      setTimeoutRenderAsync'_def)

lemma resume_suspended:
  "suspended' (snd (resume opt_force R s)) = (if opt_force then 0 else max (suspended' s - 1) 0)"
  by (simp add: resume_def Let_def)

lemma perform_nonneg:
  "0 \<le> suspended' s \<Longrightarrow> 0 \<le> suspended' (snd (perform R c s))"
  by (cases c) (simp_all add: suspend_def resume_suspended)

lemma performAll_nonneg:
  "0 \<le> suspended' s \<Longrightarrow> 0 \<le> suspended' (performAll R cs s)"
  by (induction cs arbitrary: s) (simp_all add: perform_nonneg)

lemma render_events_start:
  "\<not> isRendering' s \<Longrightarrow> \<exists>es. events (snd (render R s)) = events s @ RENDER_START # es"
  by (simp add: render_def Let_def renderBegin_def renderAppend_def renderEnd_def
      settleImages_def stageRenderedDispatcher'_def dispatchRenderEvent_def dispatchEvent_def
      resetDomChangesCount_def installAllocator_def logBudget_def)

lemma render_sync_effect:
  "\<not> isRendering' s \<Longrightarrow>
     timeouts (snd (render R s)) = timeouts s \<and> acquireDomChangesField (snd (render R s)) = Sync"
  by (simp add: render_def Let_def renderBegin_def renderAppend_def renderEnd_def
      settleImages_def stageRenderedDispatcher'_def dispatchRenderEvent_def dispatchEvent_def
      resetDomChangesCount_def installAllocator_def logBudget_def)

lemma renderAsync_effect:
  "\<not> isRendering' s \<Longrightarrow> container' s \<noteq> None \<Longrightarrow>
     renderAsync s = (Normal, s\<lparr>isRendering' := True, events := events s @ [RENDER_START],
                                timeouts := Suc (timeouts s)\<rparr>)"
  by (simp add: renderAsync_def dispatchRenderEvent_def dispatchEvent_def
      setTimeoutRenderAsync'_def container_def)

lemma perform_while_rendering:
  assumes "isRendering' s"
  shows "snd (perform R c s) = s\<lparr>suspended' := suspended' (snd (perform R c s))\<rparr>"
proof (cases c)
  case CallSuspend
  then show ?thesis by (simp add: suspend_def)
next
  case (CallResume opt_force)
  then show ?thesis
    using assms by (simp add: resume_def Let_def render_def renderAsync_def)
next
  case CallRender
  then show ?thesis
    using assms by (simp add: render_def)
next
  case CallRenderAsync
  then show ?thesis
    using assms by (simp add: renderAsync_def)
qed

lemma performAll_while_rendering:
  "isRendering' s \<Longrightarrow> performAll R cs s = s\<lparr>suspended' := suspended' (performAll R cs s)\<rparr>"
proof (induction cs arbitrary: s)
  case Nil
  then show ?case by simp
next
  case (Cons c cs)
  let ?s1 = "snd (perform R c s)"
  have s1: "?s1 = s\<lparr>suspended' := suspended' ?s1\<rparr>"
    using Cons.prems by (rule perform_while_rendering)
  have "isRendering' ?s1 = isRendering' (s\<lparr>suspended' := suspended' ?s1\<rparr>)"
    by (rule arg_cong [OF s1])
  then have "isRendering' ?s1"
    using Cons.prems by simp
  then have "performAll R cs ?s1 = ?s1\<lparr>suspended' := suspended' (performAll R cs ?s1)\<rparr>"
    by (rule Cons.IH)
  also have "\<dots> = s\<lparr>suspended' := suspended' (performAll R cs ?s1)\<rparr>"
    by (subst s1) simp
  finally show ?case
    by simp
qed

lemmas example_defs = exampleStage_def exampleCollaborators_def newStage_def initialFields_def
  resume_def suspend_def renderInternal_def callRender_def renderAsync'_def renderAsyncBegin_def
  renderAsyncAppend_def



section \<open>The claims\<close>

text \<open>
  Claim C1. \<^verbatim>\<open>suspend()\<close> adds one to the suspend counter and changes nothing else,
  so it flushes nothing. \<^verbatim>\<open>resume()\<close> sets the counter to
  \<open>max (counter - 1) 0\<close>, or to \<open>0\<close> when forced, so the counter after
  \<^verbatim>\<open>resume()\<close> is never negative, and a counter that is not negative stays so
  under \<^verbatim>\<open>suspend()\<close> and under every sequence of calls. \<^verbatim>\<open>resume()\<close>
  then calls a flush exactly when the new counter is zero and a container is attached:
  \<^verbatim>\<open>renderAsync()\<close> in async mode, \<^verbatim>\<open>render()\<close> otherwise. On a stage that is
  not rendering this shows from outside: an event is dispatched exactly in that case,
  and the flush either schedules one timer callback (async mode) or leaves the
  unbounded allocator installed (sync mode).
\<close>

theorem suspend_resume_counter:
  "suspend s = s\<lparr>suspended' := suspended' s + 1\<rparr>
   \<and> suspended' (snd (resume opt_force R s)) =
       (if opt_force then 0 else max (suspended' s - 1) 0)
   \<and> 0 \<le> suspended' (snd (resume opt_force R s))
   \<and> (0 \<le> suspended' s \<longrightarrow>
        0 \<le> suspended' (suspend s) \<and> (\<forall>cs. 0 \<le> suspended' (performAll R cs s)))
   \<and> resume opt_force R s =
       (let s1 = s\<lparr>suspended' := (if opt_force then 0 else max (suspended' s - 1) 0)\<rparr>
        in if suspended' s1 = 0 \<and> container s \<noteq> None
           then (if asyncMode' s then renderAsync s1 else render R s1)
           else (Normal, s1))
   \<and> (\<not> isRendering s \<longrightarrow>
        (events (snd (resume opt_force R s)) \<noteq> events s) =
          (suspended' (snd (resume opt_force R s)) = 0 \<and> container s \<noteq> None))
   \<and> (\<not> isRendering s \<and> suspended' (snd (resume opt_force R s)) = 0 \<and> container s \<noteq> None
        \<longrightarrow> (if asyncMode' s
             then timeouts (snd (resume opt_force R s)) = Suc (timeouts s)
                  \<and> backendCalls (snd (resume opt_force R s)) = backendCalls s
             else timeouts (snd (resume opt_force R s)) = timeouts s
                  \<and> acquireDomChangesField (snd (resume opt_force R s)) = Sync))"
proof -
  let ?n = "if opt_force then 0 else max (suspended' s - 1) 0"
  let ?s1 = "s\<lparr>suspended' := ?n\<rparr>"
  have eq: "resume opt_force R s =
       (if ?n = 0 \<and> container s \<noteq> None
        then (if asyncMode' s then renderAsync ?s1 else render R ?s1)
        else (Normal, ?s1))"
    by (auto simp add: resume_def Let_def container_def)
  have cnt: "suspended' (snd (resume opt_force R s)) = ?n"
    by (rule resume_suspended)
  have ev: "events (snd (resume opt_force R s)) \<noteq> events s
      \<longleftrightarrow> (?n = 0 \<and> container s \<noteq> None)" if nr: "\<not> isRendering s"
  proof (cases "?n = 0 \<and> container s \<noteq> None")
    case False
    then show ?thesis
      using eq by auto
  next
    case True
    have r: "\<not> isRendering' ?s1" "container' ?s1 \<noteq> None"
      using nr True by (simp_all add: isRendering_def container_def)
    show ?thesis
    proof (cases "asyncMode' s")
      case True
      then show ?thesis
        using eq \<open>?n = 0 \<and> container s \<noteq> None\<close> renderAsync_effect [OF r] by simp
    next
      case False
      from render_events_start [OF r(1)] obtain es
        where "events (snd (render R ?s1)) = events ?s1 @ RENDER_START # es" ..
      then show ?thesis
        using eq \<open>?n = 0 \<and> container s \<noteq> None\<close> False by simp
    qed
  qed
  have fl: "if asyncMode' s
             then timeouts (snd (resume opt_force R s)) = Suc (timeouts s)
                  \<and> backendCalls (snd (resume opt_force R s)) = backendCalls s
             else timeouts (snd (resume opt_force R s)) = timeouts s
                  \<and> acquireDomChangesField (snd (resume opt_force R s)) = Sync"
    if nr: "\<not> isRendering s" and tr: "?n = 0 \<and> container s \<noteq> None"
  proof -
    have r: "\<not> isRendering' ?s1" "container' ?s1 \<noteq> None"
      using nr tr by (simp_all add: isRendering_def container_def)
    show ?thesis
      using eq tr renderAsync_effect [OF r] render_sync_effect [OF r(1), of R] by simp
  qed
  have c1: "suspend s = s\<lparr>suspended' := suspended' s + 1\<rparr>"
    by (simp add: suspend_def)
  have c3: "0 \<le> suspended' (snd (resume opt_force R s))"
    using cnt by simp
  have c4: "0 \<le> suspended' s \<longrightarrow>
        0 \<le> suspended' (suspend s) \<and> (\<forall>cs. 0 \<le> suspended' (performAll R cs s))"
    by (simp add: suspend_def performAll_nonneg)
  have c5: "resume opt_force R s =
       (let s1 = s\<lparr>suspended' := (if opt_force then 0 else max (suspended' s - 1) 0)\<rparr>
        in if suspended' s1 = 0 \<and> container s \<noteq> None
           then (if asyncMode' s then renderAsync s1 else render R s1)
           else (Normal, s1))"
    using eq by (simp add: Let_def)
  have c6: "\<not> isRendering s \<longrightarrow>
        (events (snd (resume opt_force R s)) \<noteq> events s) =
          (suspended' (snd (resume opt_force R s)) = 0 \<and> container s \<noteq> None)"
    using ev cnt by simp
  have c7: "\<not> isRendering s \<and> suspended' (snd (resume opt_force R s)) = 0 \<and> container s \<noteq> None
        \<longrightarrow> (if asyncMode' s
             then timeouts (snd (resume opt_force R s)) = Suc (timeouts s)
                  \<and> backendCalls (snd (resume opt_force R s)) = backendCalls s
             else timeouts (snd (resume opt_force R s)) = timeouts s
                  \<and> acquireDomChangesField (snd (resume opt_force R s)) = Sync)"
    using fl cnt by simp
  show ?thesis
    by (intro conjI) (fact c1, fact cnt, fact c3, fact c4, fact c5, fact c6, fact c7)
qed

text \<open>The theorem at the example stage.\<close>

theorem suspend_resume_counter_witness:
  "0 \<le> suspended' (exampleStage 3)
   \<and> \<not> isRendering (exampleStage 3)
   \<and> container (exampleStage 3) \<noteq> None
   \<and> suspended' (suspend (exampleStage 3)) = 2
   \<and> suspended' (snd (resume False exampleCollaborators (exampleStage 3))) = 0
   \<and> events (snd (resume False exampleCollaborators (exampleStage 3))) \<noteq> events (exampleStage 3)
   \<and> timeouts (snd (resume False exampleCollaborators (exampleStage 3))) = 0
   \<and> acquireDomChangesField (snd (resume False exampleCollaborators (exampleStage 3))) = Sync
   \<and> 0 \<le> suspended' (performAll exampleCollaborators [CallResume True, CallSuspend] (exampleStage 3))"
proof -
  let ?s = "exampleStage 3"
  let ?t = "snd (resume False exampleCollaborators ?s)"
  have h: "0 \<le> suspended' ?s" "\<not> isRendering ?s" "container ?s \<noteq> None"
    by (simp_all add: example_defs flush_defs)
  have v: "\<not> asyncMode' ?s" "suspended' ?s = 1" "timeouts ?s = 0"
    by (simp_all add: example_defs flush_defs)
  note T = suspend_resume_counter [of ?s False exampleCollaborators]
  from T have c1: "suspend ?s = ?s\<lparr>suspended' := suspended' ?s + 1\<rparr>"
    by blast
  from T have c2: "suspended' ?t = (if False then 0 else max (suspended' ?s - 1) 0)"
    by blast
  from T h have c4: "\<forall>cs. 0 \<le> suspended' (performAll exampleCollaborators cs ?s)"
    by blast
  from T h have c6: "(events ?t \<noteq> events ?s) = (suspended' ?t = 0 \<and> container ?s \<noteq> None)"
    by blast
  have z: "suspended' ?t = 0"
    using c2 v by simp
  from T h z have c7: "if asyncMode' ?s
             then timeouts ?t = Suc (timeouts ?s) \<and> backendCalls ?t = backendCalls ?s
             else timeouts ?t = timeouts ?s \<and> acquireDomChangesField ?t = Sync"
    by blast
  have "suspended' (suspend ?s) = 2"
    using arg_cong [OF c1, of suspended'] v by simp
  moreover have "events ?t \<noteq> events ?s"
    using c6 z h by blast
  moreover have "timeouts ?t = 0" "acquireDomChangesField ?t = Sync"
    using c7 v by simp_all
  moreover have "0 \<le> suspended' (performAll exampleCollaborators [CallResume True, CallSuspend] ?s)"
    using c4 by blast
  ultimately show ?thesis
    using h z by blast
qed




text \<open>
  Claim C3, as it holds. \<^verbatim>\<open>acquireDomChangesAsync_\<close> takes the minimum and does
  not stop at zero: on a stage whose counter is five with a maximum of two, a request of
  one change returns minus three.
\<close>

theorem acquireDomChangesAsync_negative_grant:
  "(0::int) \<le> 1
   \<and> fst (acquireDomChangesAsync' 1
        ((exampleStage 3)\<lparr>maxDomChanges := 2, currentDomChangesCount := 5\<rparr>)) = - 3
   \<and> \<not> 0 \<le> fst (acquireDomChangesAsync' 1
        ((exampleStage 3)\<lparr>maxDomChanges := 2, currentDomChangesCount := 5\<rparr>))"
  by (simp add: acquireDomChangesAsync'_def logBudget_def Let_def)

text \<open>
  Claim C3, amended. \<^verbatim>\<open>acquireDomChangesAsync_(wanted)\<close> returns
  \<open>min (maxDomChanges - currentDomChangesCount) wanted\<close>, which is at most \<open>wanted\<close>,
  and adds exactly the returned amount to the counter. For a \<open>wanted\<close> that is not
  negative, the returned amount is not negative, and so lies between \<open>0\<close> and
  \<open>wanted\<close>, exactly when the counter does not exceed the maximum; when the counter
  exceeds the maximum, the returned amount is the negative number
  \<open>maxDomChanges - currentDomChangesCount\<close>. \<^verbatim>\<open>acquireDomChangesSync_(wanted)\<close>
  returns \<open>wanted\<close> and adds it to the counter.
\<close>

theorem acquireDomChangesAsync_grant:
  "fst (acquireDomChangesAsync' wanted s) =
     min (maxDomChanges s - currentDomChangesCount s) wanted
   \<and> currentDomChangesCount (snd (acquireDomChangesAsync' wanted s)) =
       currentDomChangesCount s + fst (acquireDomChangesAsync' wanted s)
   \<and> fst (acquireDomChangesAsync' wanted s) \<le> wanted
   \<and> (0 \<le> wanted \<longrightarrow>
        (0 \<le> fst (acquireDomChangesAsync' wanted s))
          = (currentDomChangesCount s \<le> maxDomChanges s))
   \<and> (0 \<le> wanted \<and> maxDomChanges s < currentDomChangesCount s \<longrightarrow>
        fst (acquireDomChangesAsync' wanted s) = maxDomChanges s - currentDomChangesCount s)
   \<and> fst (acquireDomChangesSync' wanted s) = wanted
   \<and> currentDomChangesCount (snd (acquireDomChangesSync' wanted s)) =
       currentDomChangesCount s + wanted"
  by (auto simp add: acquireDomChangesAsync'_def acquireDomChangesSync'_def logBudget_def Let_def)

text \<open>
  The theorem at the example stage with a maximum of two: a request of three changes is
  granted two.
\<close>

theorem acquireDomChangesAsync_grant_witness:
  "(0::int) \<le> 3
   \<and> currentDomChangesCount ((exampleStage 3)\<lparr>maxDomChanges := 2\<rparr>)
       \<le> maxDomChanges ((exampleStage 3)\<lparr>maxDomChanges := 2\<rparr>)
   \<and> fst (acquireDomChangesAsync' 3 ((exampleStage 3)\<lparr>maxDomChanges := 2\<rparr>)) = 2
   \<and> 0 \<le> fst (acquireDomChangesAsync' 3 ((exampleStage 3)\<lparr>maxDomChanges := 2\<rparr>))
   \<and> currentDomChangesCount
         (snd (acquireDomChangesAsync' 3 ((exampleStage 3)\<lparr>maxDomChanges := 2\<rparr>))) = 2
   \<and> fst (acquireDomChangesSync' 3 ((exampleStage 3)\<lparr>maxDomChanges := 2\<rparr>)) = 3"
proof -
  let ?s = "(exampleStage 3)\<lparr>maxDomChanges := 2\<rparr>"
  have h: "(0::int) \<le> 3" "currentDomChangesCount ?s \<le> maxDomChanges ?s"
    by (simp_all add: example_defs flush_defs)
  have v: "currentDomChangesCount ?s = 0" "maxDomChanges ?s = 2"
    by (simp_all add: example_defs flush_defs)
  note T = acquireDomChangesAsync_grant [of 3 ?s]
  from T have g: "fst (acquireDomChangesAsync' 3 ?s) =
      min (maxDomChanges ?s - currentDomChangesCount ?s) 3"
    and c: "currentDomChangesCount (snd (acquireDomChangesAsync' 3 ?s)) =
      currentDomChangesCount ?s + fst (acquireDomChangesAsync' 3 ?s)"
    and y: "fst (acquireDomChangesSync' 3 ?s) = 3"
    by blast+
  from T h(1) have "(0 \<le> fst (acquireDomChangesAsync' 3 ?s))
      = (currentDomChangesCount ?s \<le> maxDomChanges ?s)"
    by blast
  with h(2) have p: "0 \<le> fst (acquireDomChangesAsync' 3 ?s)"
    by blast
  have g2: "fst (acquireDomChangesAsync' 3 ?s) = 2"
    using g by (simp add: v)
  have c2: "currentDomChangesCount (snd (acquireDomChangesAsync' 3 ?s)) = 2"
    using c by (simp add: v g2)
  show ?thesis
    using h g2 p c2 y by (intro conjI)
qed

text \<open>
  Claim C4. For a structural kind (\<open>ELEMENT_CREATE\<close>, \<open>ELEMENT_ADD\<close>,
  \<open>ELEMENT_REMOVE\<close>), \<^verbatim>\<open>acquireDomChange(kind)\<close> asks the installed allocator for
  exactly one change and returns whether it was granted; the grant is at most one; when
  granted the counter grows by exactly one, and when refused at a counter within the
  maximum the counter is unchanged. The unbounded allocator always grants; the capped
  one grants exactly when the counter is below the maximum. For \<open>APPLY_FILL\<close> and
  \<open>APPLY_STROKE\<close> the call returns true and leaves the stage as it is, whichever
  allocator is installed.
\<close>

theorem acquireDomChange_kinds:
  "(k \<in> {ELEMENT_CREATE, ELEMENT_ADD, ELEMENT_REMOVE} \<longrightarrow>
      acquireDomChange k s = (0 < fst (acquireDomChanges 1 s), snd (acquireDomChanges 1 s))
      \<and> currentDomChangesCount (snd (acquireDomChange k s)) =
          currentDomChangesCount s + fst (acquireDomChanges 1 s)
      \<and> fst (acquireDomChanges 1 s) \<le> 1
      \<and> (fst (acquireDomChange k s) \<longrightarrow>
            currentDomChangesCount (snd (acquireDomChange k s)) = currentDomChangesCount s + 1)
      \<and> (\<not> fst (acquireDomChange k s) \<and> currentDomChangesCount s \<le> maxDomChanges s \<longrightarrow>
            currentDomChangesCount (snd (acquireDomChange k s)) = currentDomChangesCount s)
      \<and> (acquireDomChangesField s = Sync \<longrightarrow> fst (acquireDomChange k s))
      \<and> (acquireDomChangesField s = Async \<longrightarrow>
            fst (acquireDomChange k s) = (currentDomChangesCount s < maxDomChanges s)))
   \<and> (k \<in> {APPLY_FILL, APPLY_STROKE} \<longrightarrow> acquireDomChange k s = (True, s))"
  by (cases "acquireDomChangesField s"; cases k) (auto simp add: quota_defs Let_def)

text \<open>The theorem at the example stage.\<close>

theorem acquireDomChange_kinds_witness:
  "ELEMENT_ADD \<in> {ELEMENT_CREATE, ELEMENT_ADD, ELEMENT_REMOVE}
   \<and> acquireDomChangesField (exampleStage 3) = Sync
   \<and> fst (acquireDomChange ELEMENT_ADD (exampleStage 3))
   \<and> currentDomChangesCount (snd (acquireDomChange ELEMENT_ADD (exampleStage 3))) =
       currentDomChangesCount (exampleStage 3) + 1
   \<and> APPLY_FILL \<in> {APPLY_FILL, APPLY_STROKE}
   \<and> acquireDomChange APPLY_FILL (exampleStage 3) = (True, exampleStage 3)"
proof -
  let ?s = "exampleStage 3"
  have h: "acquireDomChangesField ?s = Sync"
    by (simp add: example_defs flush_defs)
  have m1: "ELEMENT_ADD \<in> {ELEMENT_CREATE, ELEMENT_ADD, ELEMENT_REMOVE}"
    and m2: "APPLY_FILL \<in> {APPLY_FILL, APPLY_STROKE}"
    by simp_all
  note T1 = acquireDomChange_kinds [of ELEMENT_ADD ?s, THEN conjunct1, rule_format, OF m1]
  note T2 = acquireDomChange_kinds [of APPLY_FILL ?s, THEN conjunct2, rule_format, OF m2]
  from T1 h have g: "fst (acquireDomChange ELEMENT_ADD ?s)"
    by blast
  from T1 g have c: "currentDomChangesCount (snd (acquireDomChange ELEMENT_ADD ?s)) =
      currentDomChangesCount ?s + 1"
    by blast
  show ?thesis
    using m1 m2 h g c T2 by (intro conjI)
qed

text \<open>
  Claim C5, as it holds. \<^verbatim>\<open>render()\<close> called while a flush is in progress returns
  normally at once and leaves a dirty stage dirty: the stage below has had
  \<^verbatim>\<open>renderAsync()\<close> called, its tick is still pending, and three elements are
  missing.
\<close>

theorem render_while_rendering_stays_dirty:
  "fst (render exampleCollaborators (snd (renderAsync (exampleStage 3)))) = Normal
   \<and> isDirty exampleCollaborators
       (snd (render exampleCollaborators (snd (renderAsync (exampleStage 3)))))"
  by (simp add: example_defs flush_defs)

text \<open>
  Claim C5, amended. A \<^verbatim>\<open>render()\<close> called while no flush is in progress, if it
  returns normally, leaves \<^verbatim>\<open>isDirty()\<close> false; and if the stage has a container
  and is still dirty after the internal flush and the move into the container, the call
  throws \<open>DIRTY_AFTER_SYNC_RENDER\<close> instead of returning.
\<close>

theorem render_leaves_clean:
  assumes "\<not> isRendering s"
  shows "(fst (render R s) = Normal \<longrightarrow> \<not> isDirty R (snd (render R s)))
       \<and> (container s \<noteq> None \<and> isDirty R (renderAppend (renderInternal R (renderBegin s)))
            \<longrightarrow> fst (render R s) = Throw DIRTY_AFTER_SYNC_RENDER)"
proof -
  have c: "container' (renderBegin s) = container' s"
    by (simp add: flush_defs)
  show ?thesis
    using assms c
    by (simp add: render_def Let_def isRendering_def container_def isDirty_def)
qed

text \<open>The theorem at the example stage.\<close>

theorem render_leaves_clean_witness:
  "\<not> isRendering (exampleStage 3)
   \<and> fst (render exampleCollaborators (exampleStage 3)) = Normal
   \<and> \<not> isDirty exampleCollaborators (snd (render exampleCollaborators (exampleStage 3)))
   \<and> container (exampleStage 3) \<noteq> None
   \<and> isDirty (exampleCollaborators\<lparr>layer_render := (\<lambda>s. ([], scene s))\<rparr>)
       (renderAppend (renderInternal (exampleCollaborators\<lparr>layer_render := (\<lambda>s. ([], scene s))\<rparr>)
          (renderBegin (exampleStage 3))))
   \<and> fst (render (exampleCollaborators\<lparr>layer_render := (\<lambda>s. ([], scene s))\<rparr>) (exampleStage 3))
       = Throw DIRTY_AFTER_SYNC_RENDER"
proof -
  let ?R = "exampleCollaborators\<lparr>layer_render := (\<lambda>s. ([], scene s))\<rparr>"
  have h: "\<not> isRendering (exampleStage 3)" "container (exampleStage 3) \<noteq> None"
    by (simp_all add: example_defs flush_defs)
  have n: "fst (render exampleCollaborators (exampleStage 3)) = Normal"
    by (simp add: example_defs flush_defs acquireDomChange_def acquireDomChanges_def
        acquireDomChangesSync'_def Let_def)
  have d: "isDirty ?R (renderAppend (renderInternal ?R (renderBegin (exampleStage 3))))"
    by (simp add: example_defs flush_defs Let_def)
  show ?thesis
    using render_leaves_clean [OF h(1), of exampleCollaborators]
      render_leaves_clean [OF h(1), of ?R] h n d
    by simp
qed

text \<open>
  Claim C6. On a stage that is not rendering and has no container, \<^verbatim>\<open>render()\<close>
  and \<^verbatim>\<open>renderAsync()\<close> both end by throwing \<open>CONTAINER_SHOULD_BE_DEFINED\<close>:
  the error is the completion of the call itself, nothing catches it.
\<close>

theorem flush_without_container_throws:
  assumes "\<not> isRendering s" and "container s = None"
  shows "fst (render R s) = Throw CONTAINER_SHOULD_BE_DEFINED
       \<and> fst (renderAsync s) = Throw CONTAINER_SHOULD_BE_DEFINED"
  using assms by (simp add: flush_defs)

text \<open>The theorem at the example stage.\<close>

theorem flush_without_container_throws_witness:
  "\<not> isRendering (newStage exampleCollaborators 3)
   \<and> container (newStage exampleCollaborators 3) = None
   \<and> fst (render exampleCollaborators (newStage exampleCollaborators 3))
       = Throw CONTAINER_SHOULD_BE_DEFINED
   \<and> fst (renderAsync (newStage exampleCollaborators 3)) = Throw CONTAINER_SHOULD_BE_DEFINED"
proof -
  have h: "\<not> isRendering (newStage exampleCollaborators 3)"
    "container (newStage exampleCollaborators 3) = None"
    by (simp_all add: example_defs flush_defs)
  show ?thesis
    using flush_without_container_throws [OF h, of exampleCollaborators] h by simp
qed

text \<open>
  Claim C7. While \<^verbatim>\<open>isRendering()\<close> is true, \<^verbatim>\<open>render()\<close> and
  \<^verbatim>\<open>renderAsync()\<close> return normally and the stage is exactly the stage before the
  call: the suspend counter, the counter of DOM changes, the installed allocator, the
  pending timer callbacks, the scene and the logs of events and of backend calls are
  unchanged.
\<close>

theorem rendering_flush_ignored:
  "isRendering s \<Longrightarrow> render R s = (Normal, s) \<and> renderAsync s = (Normal, s)"
  by (simp add: render_def renderAsync_def isRendering_def)

text \<open>The theorem at the example stage.\<close>

theorem rendering_flush_ignored_witness:
  "isRendering (snd (renderAsync (exampleStage 3)))
   \<and> render exampleCollaborators (snd (renderAsync (exampleStage 3)))
       = (Normal, snd (renderAsync (exampleStage 3)))
   \<and> renderAsync (snd (renderAsync (exampleStage 3)))
       = (Normal, snd (renderAsync (exampleStage 3)))"
proof -
  have h: "isRendering (snd (renderAsync (exampleStage 3)))"
    by (simp add: example_defs flush_defs)
  show ?thesis
    using rendering_flush_ignored [OF h, of exampleCollaborators] h by simp
qed

text \<open>
  Claim C8. Let \<^verbatim>\<open>render()\<close> return normally, and call it again on the stage it
  left. If the first call was a real flush, it left no pending clip and a clean root
  layer, so the \<^verbatim>\<open>renderInternal()\<close> of the second call renders neither a clip nor
  the layer: the only collaborator it can call is \<^verbatim>\<open>credits().render()\<close>, when
  another file has added credits to the stage. With no credits, as in
  \<^verbatim>\<open>Stage.js\<close> itself, the second call returns normally and makes no backend call
  at all; the scene and the parent of the root element are unchanged.
\<close>

theorem render_twice_idle:
  assumes "render R s = (Normal, s1)"
  shows "(\<not> isRendering s \<longrightarrow>
            clipsToRender' s1 = [] \<and> \<not> isDirty R s1
            \<and> backendCalls (renderInternal R (renderBegin s1)) =
                backendCalls s1 @ (case credits R of None \<Rightarrow> [] | Some creditsRender \<Rightarrow> [CreditsRender]))
       \<and> (credits R = None \<longrightarrow>
            fst (render R s1) = Normal
            \<and> backendCalls (snd (render R s1)) = backendCalls s1
            \<and> scene (snd (render R s1)) = scene s1
            \<and> domElementParent (snd (render R s1)) = domElementParent s1)"
proof (cases "isRendering' s")
  case True
  then have "s1 = s"
    using assms by (simp add: render_def)
  then show ?thesis
    using True by (simp add: render_def isRendering_def)
next
  case False
  let ?f = "renderAppend (renderInternal R (renderBegin s))"
  have c: "container' (renderBegin s) = container' s"
    by (simp add: flush_defs)
  from assms False have cont: "container' s \<noteq> None" and clean: "\<not> isDirty R ?f"
    and s1: "s1 = renderEnd R ?f"
    by (auto simp add: render_def Let_def c split: if_splits)
  have f: "clipsToRender' ?f = []" "domElementParent ?f = container' ?f"
    "container' ?f = container' s"
    by (simp_all add: flush_defs)
  have e: "clipsToRender' s1 = []" "domElementParent s1 = container' s1"
    "container' s1 = container' s" "scene s1 = scene ?f" "\<not> isRendering' s1"
    "renderedResizeMonitor' s1 \<or> \<not> resizeListener s1"
    "isImageLoading R (scene s1) \<longrightarrow> imageLoadingListener' s1"
    unfolding s1 using f by (simp_all add: Let_def flush_defs)
  have nd: "\<not> layer_isDirty R (scene s1)"
    using clean e(4) by (simp add: isDirty_def)
  let ?b = "renderBegin s1"
  have b: "clipsToRender' ?b = []" "scene ?b = scene s1" "backendCalls ?b = backendCalls s1"
    "container' ?b = container' s1" "domElementParent ?b = domElementParent s1"
    "renderedResizeMonitor' ?b = renderedResizeMonitor' s1" "resizeListener ?b = resizeListener s1"
    "imageLoadingListener' ?b = imageLoadingListener' s1"
    using e(1) by (simp_all add: flush_defs)
  have calls: "backendCalls (renderInternal R ?b) =
      backendCalls s1 @ (case credits R of None \<Rightarrow> [] | Some creditsRender \<Rightarrow> [CreditsRender])"
    using b nd by (simp add: renderInternal_def Let_def split: option.splits)
  have idle: "renderInternal R ?b = ?b" if "credits R = None"
    using that b nd by (simp add: renderInternal_def Let_def)
  have second: "fst (render R s1) = Normal \<and> backendCalls (snd (render R s1)) = backendCalls s1
      \<and> scene (snd (render R s1)) = scene s1
      \<and> domElementParent (snd (render R s1)) = domElementParent s1" if "credits R = None"
  proof -
    have a: "renderAppend ?b = ?b"
      using b e cont by (simp add: renderAppend_def)
    have r: "render R s1 = (Normal, renderEnd R ?b)"
      using e(5) b e(3) cont nd by (simp add: render_def Let_def idle [OF that] a isDirty_def)
    have "backendCalls (renderEnd R ?b) = backendCalls s1"
      "scene (renderEnd R ?b) = scene s1"
      "domElementParent (renderEnd R ?b) = domElementParent s1"
      using b e(6,7)
      by (auto simp add: renderEnd_def Let_def settleImages_def stageRenderedDispatcher'_def
          dispatchRenderEvent_def dispatchEvent_def)
    then show ?thesis
      using r by simp
  qed
  show ?thesis
    using e(1) nd calls second by (simp add: isDirty_def)
qed

text \<open>The theorem at the example stage.\<close>

theorem render_twice_idle_witness:
  "render exampleCollaborators (exampleStage 3)
     = (Normal, snd (render exampleCollaborators (exampleStage 3)))
   \<and> \<not> isRendering (exampleStage 3)
   \<and> credits exampleCollaborators = None
   \<and> clipsToRender' (snd (render exampleCollaborators (exampleStage 3))) = []
   \<and> \<not> isDirty exampleCollaborators (snd (render exampleCollaborators (exampleStage 3)))
   \<and> fst (render exampleCollaborators (snd (render exampleCollaborators (exampleStage 3)))) = Normal
   \<and> backendCalls (snd (render exampleCollaborators (snd (render exampleCollaborators (exampleStage 3)))))
       = backendCalls (snd (render exampleCollaborators (exampleStage 3)))"
proof -
  have n: "fst (render exampleCollaborators (exampleStage 3)) = Normal"
    by (simp add: example_defs flush_defs acquireDomChange_def acquireDomChanges_def
        acquireDomChangesSync'_def Let_def)
  then have r: "render exampleCollaborators (exampleStage 3)
     = (Normal, snd (render exampleCollaborators (exampleStage 3)))"
    by (metis prod.collapse)
  have h: "\<not> isRendering (exampleStage 3)" "credits exampleCollaborators = None"
    by (simp_all add: example_defs flush_defs)
  show ?thesis
    using render_twice_idle [OF r] r h by simp
qed

text \<open>
  Claim C9. \<^verbatim>\<open>blockChangesForAdding()\<close> asks the installed allocator for exactly
  \<open>floor (max (maxDomChanges - currentDomChangesCount) 0 / 3)\<close> changes and returns what
  the allocator grants; the grant is at most what was asked, so three times the
  reservation never exceeds the remaining quota of the frame.
\<close>

theorem blockChangesForAdding_third:
  "blockChangesForAdding s =
     acquireDomChanges (max (maxDomChanges s - currentDomChangesCount s) 0 div 3) s
   \<and> fst (blockChangesForAdding s) \<le> max (maxDomChanges s - currentDomChangesCount s) 0 div 3
   \<and> 3 * fst (blockChangesForAdding s) \<le> max (maxDomChanges s - currentDomChangesCount s) 0"
proof -
  let ?rem = "max (maxDomChanges s - currentDomChangesCount s) 0"
  have eq: "blockChangesForAdding s = acquireDomChanges (?rem div 3) s"
    by (simp add: blockChangesForAdding_def)
  have le: "fst (acquireDomChanges (?rem div 3) s) \<le> ?rem div 3"
    by (cases "acquireDomChangesField s")
       (simp_all add: acquireDomChanges_def acquireDomChangesSync'_def
          acquireDomChangesAsync'_def Let_def)
  have "3 * (?rem div 3) \<le> ?rem"
    by simp
  with le have "3 * fst (acquireDomChanges (?rem div 3) s) \<le> ?rem"
    by linarith
  with eq le show ?thesis
    by simp
qed

text \<open>
  Claim C10. \<^verbatim>\<open>render()\<close> on a stage that is not rendering and has no container
  dispatches \<open>RENDER_START\<close>, which sets the rendering flag, and then throws
  \<open>CONTAINER_SHOULD_BE_DEFINED\<close> with the flag still set. The stage after the
  exception differs from the stage before; \<^verbatim>\<open>isRendering()\<close> is true on it; and
  \<^verbatim>\<open>render()\<close> and \<^verbatim>\<open>renderAsync()\<close> on it return at once without any effect.
  The same holds after every sequence of \<^verbatim>\<open>suspend\<close>, \<^verbatim>\<open>resume\<close>,
  \<^verbatim>\<open>render\<close> and \<^verbatim>\<open>renderAsync\<close> calls: the flag stays set, and no further
  event, backend call or timer callback ever happens.
\<close>

theorem render_without_container_sticks:
  assumes "\<not> isRendering s" and "container s = None"
  shows "fst (render R s) = Throw CONTAINER_SHOULD_BE_DEFINED
       \<and> events (snd (render R s)) = events s @ [RENDER_START]
       \<and> isRendering (snd (render R s))
       \<and> snd (render R s) \<noteq> s
       \<and> render R (snd (render R s)) = (Normal, snd (render R s))
       \<and> renderAsync (snd (render R s)) = (Normal, snd (render R s))
       \<and> (\<forall>cs. isRendering (performAll R cs (snd (render R s)))
               \<and> events (performAll R cs (snd (render R s))) = events s @ [RENDER_START]
               \<and> backendCalls (performAll R cs (snd (render R s))) = backendCalls s
               \<and> timeouts (performAll R cs (snd (render R s))) = timeouts s
               \<and> scene (performAll R cs (snd (render R s))) = scene s)"
proof -
  let ?t = "renderBegin s"
  have r: "render R s = (Throw CONTAINER_SHOULD_BE_DEFINED, ?t)"
    using assms by (simp add: render_def Let_def isRendering_def container_def renderBegin_def
        dispatchRenderEvent_def dispatchEvent_def resetDomChangesCount_def
        installAllocator_def logBudget_def)
  have t: "isRendering' ?t" "events ?t = events s @ [RENDER_START]"
    "backendCalls ?t = backendCalls s" "timeouts ?t = timeouts s" "scene ?t = scene s"
    by (simp_all add: renderBegin_def dispatchRenderEvent_def dispatchEvent_def
        resetDomChangesCount_def installAllocator_def logBudget_def)
  have ne: "?t \<noteq> s"
  proof
    assume "?t = s"
    then have "isRendering' ?t = isRendering' s"
      by simp
    then show False
      using t(1) assms(1) by (simp add: isRendering_def)
  qed
  have seq: "isRendering (performAll R cs ?t)
      \<and> events (performAll R cs ?t) = events s @ [RENDER_START]
      \<and> backendCalls (performAll R cs ?t) = backendCalls s
      \<and> timeouts (performAll R cs ?t) = timeouts s
      \<and> scene (performAll R cs ?t) = scene s" for cs
  proof -
    have "performAll R cs ?t = ?t\<lparr>suspended' := suspended' (performAll R cs ?t)\<rparr>"
      using t(1) by (rule performAll_while_rendering)
    then obtain n where "performAll R cs ?t = ?t\<lparr>suspended' := n\<rparr>" ..
    then show ?thesis
      using t by (simp add: isRendering_def)
  qed
  show ?thesis
    using r t ne seq by (simp add: render_def renderAsync_def isRendering_def)
qed

text \<open>The theorem at the example stage.\<close>

theorem render_without_container_sticks_witness:
  "\<not> isRendering (newStage exampleCollaborators 3)
   \<and> container (newStage exampleCollaborators 3) = None
   \<and> fst (render exampleCollaborators (newStage exampleCollaborators 3))
       = Throw CONTAINER_SHOULD_BE_DEFINED
   \<and> isRendering (snd (render exampleCollaborators (newStage exampleCollaborators 3)))
   \<and> isRendering (performAll exampleCollaborators [CallRender, CallResume True, CallRenderAsync]
       (snd (render exampleCollaborators (newStage exampleCollaborators 3))))
   \<and> events (performAll exampleCollaborators [CallRender, CallResume True, CallRenderAsync]
       (snd (render exampleCollaborators (newStage exampleCollaborators 3)))) = [RENDER_START]"
proof -
  let ?s = "newStage exampleCollaborators 3"
  let ?t = "snd (render exampleCollaborators ?s)"
  let ?cs = "[CallRender, CallResume True, CallRenderAsync]"
  have h: "\<not> isRendering ?s" "container ?s = None"
    by (simp_all add: example_defs flush_defs)
  have v: "events ?s = []"
    by (simp add: example_defs flush_defs)
  note T = render_without_container_sticks [OF h, of exampleCollaborators]
  from T have c1: "fst (render exampleCollaborators ?s) = Throw CONTAINER_SHOULD_BE_DEFINED"
    and c3: "isRendering ?t"
    by blast+
  from T have "\<forall>cs. isRendering (performAll exampleCollaborators cs ?t)
      \<and> events (performAll exampleCollaborators cs ?t) = events ?s @ [RENDER_START]"
    by blast
  then have "isRendering (performAll exampleCollaborators ?cs ?t)
      \<and> events (performAll exampleCollaborators ?cs ?t) = events ?s @ [RENDER_START]"
    by (rule spec)
  then have c7: "isRendering (performAll exampleCollaborators ?cs ?t)"
      "events (performAll exampleCollaborators ?cs ?t) = [RENDER_START]"
    by (simp_all only: v append_Nil)
  show ?thesis
    using h c1 c3 c7 by blast
qed

end
